theory Spec2Isabelle
  imports Complex_Main
begin

section \<open>C++ doubles\<close>

text \<open>
  The simulation clock, the period of a sensor and the time of its last sample are C++
  \<open>double\<close>s, and the sampling gate adds and compares them. A \<open>double\<close> (IEEE 754
  binary64) is a NaN, an infinity or a finite number \<open>m * 2 ^ e\<close> with integers \<open>m\<close> and
  \<open>e\<close>; \<open>Finite m e\<close> is that number. (The two zeros add and compare alike and are
  not told apart.)
\<close>

datatype double = NaN | PInf | NInf | Finite int int

text \<open>The real number that \<open>Finite m e\<close> stands for.\<close>

definition dval :: "int \<Rightarrow> int \<Rightarrow> real" where
  "dval m e = (if 0 \<le> e then of_int m * 2 ^ nat e else of_int m / 2 ^ nat (- e))"

text \<open>The number of binary digits of a positive integer.\<close>

function bit_length :: "int \<Rightarrow> int" where
  "bit_length a = (if a \<le> 0 then 0 else bit_length (a div 2) + 1)"
  by pat_completeness auto
termination
proof (relation "measure nat")
  show "wf (measure nat)" by simp
next
  fix a :: int
  assume pos: "\<not> a \<le> 0"
  then have "a div 2 < a" by linarith
  with pos show "(a div 2, a) \<in> measure nat" by simp
qed

declare bit_length.simps [simp del]

text \<open>
  Rounding to the nearest \<open>double\<close>, ties to the even significand, as the addition of
  the hardware does. \<open>round_half_even a s\<close> drops the last \<open>s\<close> binary digits of \<open>a\<close>.
  For a magnitude \<open>a * 2 ^ e\<close>, \<open>ulp_exponent a e\<close> is the exponent of the last place
  of its \<open>double\<close>: 52 below the exponent of its leading digit, and at least \<open>-1074\<close>
  (the subnormal numbers); \<open>significand a e t\<close> is the magnitude in units of \<open>2 ^ t\<close>,
  rounded. A result of \<open>2 ^ 1024\<close> or more is an infinity.
\<close>

definition round_half_even :: "int \<Rightarrow> nat \<Rightarrow> int" where
  "round_half_even a s =
     (if s = 0 then a
      else if a mod 2 ^ s < 2 ^ (s - 1) then a div 2 ^ s
      else if 2 ^ (s - 1) < a mod 2 ^ s then a div 2 ^ s + 1
      else if even (a div 2 ^ s) then a div 2 ^ s
      else a div 2 ^ s + 1)"

definition ulp_exponent :: "int \<Rightarrow> int \<Rightarrow> int" where
  "ulp_exponent a e = max (bit_length a + e - 1) (- 1022) - 52"

definition significand :: "int \<Rightarrow> int \<Rightarrow> int \<Rightarrow> int" where
  "significand a e t = (if t \<le> e then a * 2 ^ nat (e - t) else round_half_even a (nat (t - e)))"

definition pack_double :: "bool \<Rightarrow> int \<Rightarrow> int \<Rightarrow> double" where
  "pack_double negative n t =
     (if 971 < t \<or> (t = 971 \<and> n = 2 ^ 53) then (if negative then NInf else PInf)
      else Finite (if negative then - n else n) t)"

definition round_double :: "int \<Rightarrow> int \<Rightarrow> double" where
  "round_double m e =
     (if m = 0 then Finite 0 0
      else pack_double (m < 0) (significand \<bar>m\<bar> e (ulp_exponent \<bar>m\<bar> e)) (ulp_exponent \<bar>m\<bar> e))"

text \<open>
  \<open>a + b\<close> on doubles: the exact sum, rounded; a NaN operand gives NaN, and so do two
  infinities of opposite sign.
\<close>

fun dadd :: "double \<Rightarrow> double \<Rightarrow> double" where
  "dadd (Finite m1 e1) (Finite m2 e2) =
     round_double (m1 * 2 ^ nat (e1 - min e1 e2) + m2 * 2 ^ nat (e2 - min e1 e2)) (min e1 e2)"
| "dadd NaN y = NaN"
| "dadd x NaN = NaN"
| "dadd PInf NInf = NaN"
| "dadd NInf PInf = NaN"
| "dadd PInf y = PInf"
| "dadd NInf y = NInf"
| "dadd x PInf = PInf"
| "dadd x NInf = NInf"

text \<open>\<open>a < b\<close> and \<open>a >= b\<close> on doubles: exact on numbers, false when an operand is NaN.\<close>

fun dlt :: "double \<Rightarrow> double \<Rightarrow> bool" where
  "dlt (Finite m1 e1) (Finite m2 e2) =
     (m1 * 2 ^ nat (e1 - min e1 e2) < m2 * 2 ^ nat (e2 - min e1 e2))"
| "dlt NaN y = False"
| "dlt x NaN = False"
| "dlt x NInf = False"
| "dlt PInf y = False"
| "dlt NInf y = True"
| "dlt x PInf = True"

fun dge :: "double \<Rightarrow> double \<Rightarrow> bool" where
  "dge (Finite m1 e1) (Finite m2 e2) =
     (m2 * 2 ^ nat (e2 - min e1 e2) \<le> m1 * 2 ^ nat (e1 - min e1 e2))"
| "dge NaN y = False"
| "dge x NaN = False"
| "dge x NInf = True"
| "dge PInf y = True"
| "dge NInf y = False"
| "dge x PInf = False"

text \<open>
  A value of the type is a \<open>double\<close> of the machine when rounding leaves it as it is:
  its significand has at most 53 digits and its exponent is in range.
\<close>

fun is_double :: "double \<Rightarrow> bool" where
  "is_double (Finite m e) = (\<not> dlt (round_double m e) (Finite m e) \<and> \<not> dlt (Finite m e) (round_double m e))"
| "is_double x = True"

text \<open>The doubles \<open>0.0\<close> and \<open>1.0\<close>.\<close>

instantiation double :: "{zero, one}"
begin

definition zero_double :: double where
  "zero_double = Finite 0 0"

definition one_double :: double where
  "one_double = Finite 1 0"

instance ..

end

section \<open>The sensor base class of mvsim: data\<close>

text \<open>
  The C++ class \<open>SensorBase\<close> (SensorBase.cpp) keeps, for each sensor, its sampling
  period, the simulation time of its last sample, the pose its vehicle had at that
  time, the topic it publishes to, the path of the rawlog file it appends to, the
  open output stream on that file (a null pointer until the first write) and a pool
  of worker threads with its queue of tasks.

  Poses are kept abstract (the type variable \<open>'p\<close>):
  \<open>mrpt::poses::CPose3D(m_vehicle.getPose())\<close> converts the representation of one
  and the same pose. Observations are abstract too (\<open>'o\<close>). The member
  \<open>publishTopic_\<close> is the field \<open>publishTopic\<close>.
\<close>

text \<open>\<open>TSimulContext\<close>: the simulation clock handed to every entity in a stepping pass.\<close>

record TSimulContext =
  simul_time :: double

text \<open>\<open>Simulable\<close>: the entity that owns a sensor (\<open>m_vehicle\<close>), with its name and pose.\<close>

record 'p Simulable =
  getName :: string
  getPose :: 'p

record ('p, 'o) SensorBase =
  m_sensor_period :: double
  m_sensor_last_timestamp :: double
  m_vehicle_pose_at_last_timestamp :: 'p
  publishTopic :: string
  m_save_to_rawlog :: string
  m_rawlog_io :: "string option"
  m_threadPoolSendoutObs :: "('o \<times> TSimulContext) list"

section \<open>The sampling gate\<close>

text \<open>
  \<^verbatim>\<open>
  bool SensorBase::should_simulate_sensor(const TSimulContext& context)
  {
      if (context.simul_time < m_sensor_last_timestamp + m_sensor_period)
          return false;
      m_sensor_last_timestamp = context.simul_time;
      m_vehicle_pose_at_last_timestamp = mrpt::poses::CPose3D(m_vehicle.getPose());
      return true;
  }
  \<close>
  The method mutates the sensor; the model returns the result and the new sensor. The
  sum and the comparison are those of doubles.
\<close>

definition should_simulate_sensor ::
  "TSimulContext \<Rightarrow> 'p Simulable \<Rightarrow> ('p, 'o) SensorBase \<Rightarrow> bool \<times> ('p, 'o) SensorBase" where
  "should_simulate_sensor ctx m_vehicle this =
     (if dlt (simul_time ctx) (dadd (m_sensor_last_timestamp this) (m_sensor_period this))
      then (False, this)
      else (True, this\<lparr>m_sensor_last_timestamp := simul_time ctx,
                       m_vehicle_pose_at_last_timestamp := getPose m_vehicle\<rparr>))"

text \<open>
  A sequence of calls to the gate, each with the context of its stepping pass and the
  vehicle as it is then: the results of the calls, in order.
\<close>

fun gate_results ::
  "(TSimulContext \<times> 'p Simulable) list \<Rightarrow> ('p, 'o) SensorBase \<Rightarrow> bool list" where
  "gate_results [] this = []"
| "gate_results (c # cs) this =
     fst (should_simulate_sensor (fst c) (snd c) this) #
     gate_results cs (snd (should_simulate_sensor (fst c) (snd c) this))"

section \<open>The stepping engine of the world\<close>

text \<open>
  World.h declares the clock and the fixed timestep of the world, with their accessors:
  \<^verbatim>\<open>
  double get_simul_time() const { return m_simul_time; }
  double get_simul_timestep() const { return m_simul_timestep; }
  void set_simul_timestep(double timestep) { m_simul_timestep = timestep; }
  void run_simulation(double dt);
  void internal_one_timestep(double dt);
  \<close>
  The bodies of \<open>run_simulation\<close> and \<open>internal_one_timestep\<close> (World.cpp) are not
  among the sources. The field \<open>pending_time\<close> below is the pending-time accumulator
  of the specification's stepping engine. Time in this engine is the exact time of the
  specification, a real number, not a rounded double.
\<close>

record World =
  m_simul_time :: real
  m_simul_timestep :: real
  pending_time :: real


definition get_simul_timestep :: "World \<Rightarrow> real" where
  "get_simul_timestep w = m_simul_timestep w"

definition set_simul_timestep :: "real \<Rightarrow> World \<Rightarrow> World" where
  "set_simul_timestep timestep w = w\<lparr>m_simul_timestep := timestep\<rparr>"

text \<open>
  Modelled from the spec: the body of \<open>World::internal_one_timestep\<close> is missing. The
  specification (4.2) has one discrete step of length \<open>h\<close> advance the physical solver,
  run every entity's update hook and advance the simulation clock by \<open>h\<close>; of these only
  the clock is state of this model.
\<close>

definition internal_one_timestep :: "real \<Rightarrow> World \<Rightarrow> World" where
  "internal_one_timestep dt w = w\<lparr>m_simul_time := m_simul_time w + dt\<rparr>"

text \<open>
  Modelled from the spec: the body of \<open>World::run_simulation\<close> is missing. The
  specification (4.2): accumulate \<open>dt\<close> into the pending-time accumulator; while the
  pending time is at least the fixed timestep \<open>h\<close>, run one discrete step of length
  \<open>h\<close> and subtract \<open>h\<close> from the accumulator. The loop does not end when \<open>h \<le> 0\<close> and
  a step is due, so it is a partial function: \<open>None\<close> is a call that never returns.
\<close>

partial_function (option) run_pending_steps :: "World \<Rightarrow> World option" where
  "run_pending_steps w =
     (if m_simul_timestep w \<le> pending_time w
      then run_pending_steps
             ((internal_one_timestep (m_simul_timestep w) w)
                \<lparr>pending_time := pending_time w - m_simul_timestep w\<rparr>)
      else Some w)"

definition run_simulation :: "real \<Rightarrow> World \<Rightarrow> World option" where
  "run_simulation dt w = run_pending_steps (w\<lparr>pending_time := pending_time w + dt\<rparr>)"

text \<open>Repeated calls of \<open>run_simulation\<close>, one for each requested interval, in order.\<close>

fun run_simulation_calls :: "real list \<Rightarrow> World \<Rightarrow> World option" where
  "run_simulation_calls [] w = Some w"
| "run_simulation_calls (dt # dts) w =
     (case run_simulation dt w of
        None \<Rightarrow> None
      | Some w' \<Rightarrow> run_simulation_calls dts w')"

section \<open>The registry of sensor types\<close>

text \<open>The sensor classes that SensorBase.cpp registers.\<close>

datatype sensor_class = LaserScanner | DepthCameraSensor | CameraSensor

text \<open>
  The process-wide state of the registration: the function-local
  \<open>static bool done\<close> of \<open>register_all_sensors\<close> and the global
  \<open>classFactory_sensors\<close>, a table from the textual name of a type to its class.
\<close>

record sensor_registry =
  register_done :: bool
  classFactory_sensors :: "string \<rightharpoonup> sensor_class"

text \<open>
  Modelled from the spec: the macro \<open>REGISTER_SENSOR\<close> and the class factory behind it
  are declared in a header that is not among the sources. The specification (6) has
  \<open>register(typeName, constructor)\<close> enter the constructor under the name in a table
  keyed by name, which holds one entry for each name.
\<close>

definition REGISTER_SENSOR ::
  "string \<Rightarrow> sensor_class \<Rightarrow> (string \<rightharpoonup> sensor_class) \<Rightarrow> (string \<rightharpoonup> sensor_class)" where
  "REGISTER_SENSOR textual_name class_name reg = reg(textual_name \<mapsto> class_name)"

text \<open>
  \<^verbatim>\<open>
  void register_all_sensors()
  {
      static bool done = false;
      if (done) return; else done = true;
      REGISTER_SENSOR("laser", LaserScanner)
      REGISTER_SENSOR("rgbd_camera", DepthCameraSensor)
      REGISTER_SENSOR("camera", CameraSensor)
  }
  \<close>
\<close>

definition register_all_sensors :: "sensor_registry \<Rightarrow> sensor_registry" where
  "register_all_sensors g =
     (if register_done g then g
      else g\<lparr>register_done := True,
             classFactory_sensors :=
               REGISTER_SENSOR ''camera'' CameraSensor
                 (REGISTER_SENSOR ''rgbd_camera'' DepthCameraSensor
                   (REGISTER_SENSOR ''laser'' LaserScanner (classFactory_sensors g)))\<rparr>)"

section \<open>The sensor factory\<close>

text \<open>
  Every \<open>throw\<close> of SensorBase.cpp raises a \<open>std::runtime_error\<close> with a message.
  \<open>UnknownTypeError\<close> is the error of the specification (6, 7) for a look-up of a type
  name that is not registered; it names the type.
\<close>

datatype error = runtime_error string | UnknownTypeError string

text \<open>
  A node of the XML document (rapidxml): its name, its text, its attributes in document
  order, each with a name and a value (\<open>None\<close> where \<open>value()\<close> is a null pointer), and
  its child nodes in document order.
\<close>

datatype xml_node =
  xml_node (node_name: string) (node_value: string)
    (node_attributes: "(string \<times> string option) list") (node_children: "xml_node list")

definition first_attribute :: "string \<Rightarrow> xml_node \<Rightarrow> (string \<times> string option) option" where
  "first_attribute n r = find (\<lambda>a. fst a = n) (node_attributes r)"

definition first_node :: "string \<Rightarrow> xml_node \<Rightarrow> xml_node option" where
  "first_node n r = find (\<lambda>c. node_name c = n) (node_children r)"

text \<open>
  Modelled from the spec: \<open>classFactory_sensors.create\<close> belongs to the class factory
  whose header is missing. The specification (6): \<open>create(typeName, owningEntity,
  descriptionNode) -> Sensor\<close>, fails with an \<open>UnknownTypeError\<close> if \<open>typeName\<close> is
  unregistered; (7) such an error is surfaced synchronously, with a message that
  identifies what is wrong, here the type name. For a registered name the constructor
  of the class builds the sensor; the constructors of the concrete sensor classes are
  the parameter \<open>ctor\<close>, and they may throw. The result is a pointer, which \<open>factory\<close>
  tests for null (\<open>None\<close>); this \<open>create\<close> returns none.
\<close>

definition create ::
  "(sensor_class \<Rightarrow> 'v \<Rightarrow> xml_node \<Rightarrow> error + 's) \<Rightarrow> (string \<rightharpoonup> sensor_class) \<Rightarrow>
   string \<Rightarrow> 'v \<Rightarrow> xml_node \<Rightarrow> error + 's option" where
  "create ctor reg class_name a1 a2 =
     (case reg class_name of
        None \<Rightarrow> Inl (UnknownTypeError class_name)
      | Some c \<Rightarrow> (case ctor c a1 a2 of Inl e \<Rightarrow> Inl e | Inr we \<Rightarrow> Inr (Some we)))"

text \<open>
  \<^verbatim>\<open>
  SensorBase::Ptr SensorBase::factory(Simulable& parent, const rapidxml::xml_node<char>* root)
  {
      register_all_sensors();
      if (!root) throw runtime_error("[SensorBase::factory] XML node is nullptr");
      if (0 != strcmp(root->name(), "sensor"))
          throw runtime_error(mrpt::format(
              "[SensorBase::factory] XML root element is '%s' ('sensor' expected)", root->name()));
      const xml_attribute<>* sensor_class = root->first_attribute("class");
      if (!sensor_class || !sensor_class->value())
          throw runtime_error(
              "[VehicleBase::factory] Missing mandatory attribute 'class' in node <sensor>");
      const string sName = string(sensor_class->value());
      auto we = classFactory_sensors.create(sName, parent, root);
      if (!we)
          throw runtime_error(mrpt::format(
              "[SensorBase::factory] Unknown sensor type '%s'", root->name()));
      we->parseVisual(root->first_node("visual"));
      return we;
  }
  \<close>
  The result is the error thrown or the sensor built, together with the registry, which
  the call to \<open>register_all_sensors\<close> changes also when the factory throws. The method
  \<open>parseVisual\<close> of the sensor is a parameter; the pointer \<open>root\<close> is \<open>root_node\<close>.
\<close>

definition factory ::
  "(sensor_class \<Rightarrow> 'v \<Rightarrow> xml_node \<Rightarrow> error + 's) \<Rightarrow> (xml_node option \<Rightarrow> 's \<Rightarrow> error + 's) \<Rightarrow>
   'v \<Rightarrow> xml_node option \<Rightarrow> sensor_registry \<Rightarrow> (error + 's) \<times> sensor_registry" where
  "factory ctor parseVisual parent root_node g0 =
     (let g = register_all_sensors g0 in
      case root_node of
        None \<Rightarrow> (Inl (runtime_error ''[SensorBase::factory] XML node is nullptr''), g)
      | Some r \<Rightarrow>
          if node_name r \<noteq> ''sensor''
          then (Inl (runtime_error
                  (''[SensorBase::factory] XML root element is '' @ [CHR 0x27] @ node_name r @
                   [CHR 0x27] @ '' ('sensor' expected)'')), g)
          else
            (case first_attribute ''class'' r of
               None \<Rightarrow>
                 (Inl (runtime_error
                    ''[VehicleBase::factory] Missing mandatory attribute 'class' in node <sensor>''), g)
             | Some sensor_class \<Rightarrow>
                 (case snd sensor_class of
                    None \<Rightarrow>
                      (Inl (runtime_error
                         ''[VehicleBase::factory] Missing mandatory attribute 'class' in node <sensor>''), g)
                  | Some sName \<Rightarrow>
                      (case create ctor (classFactory_sensors g) sName parent r of
                         Inl e \<Rightarrow> (Inl e, g)
                       | Inr None \<Rightarrow>
                           (Inl (runtime_error
                              (''[SensorBase::factory] Unknown sensor type '' @ [CHR 0x27] @
                               node_name r @ [CHR 0x27])), g)
                       | Inr (Some we) \<Rightarrow> (parseVisual (first_node ''visual'' r) we, g)))))"

section \<open>Parsing the publish options of a sensor\<close>

text \<open>
  Modelled from the spec: \<open>parse_xmlnode_children_as_param\<close> (xml_utils) is missing.
  The specification (6) lists \<open>publish_topic: string\<close> among the options of the
  \<open>publish\<close> node: every child node with the name of the entry has its text stored in
  the entry's variable, a later child over an earlier one; without such a child the
  variable keeps its value. \<open>parse_s\<close> is what a \<open>"%s"\<close> entry stores for a text,
  given the variables \<open>varValues\<close>; it is a parameter.
\<close>

fun parse_children_s :: "(string \<Rightarrow> string) \<Rightarrow> string \<Rightarrow> xml_node list \<Rightarrow> string \<Rightarrow> string" where
  "parse_children_s p key [] cur = cur"
| "parse_children_s p key (c # cs) cur =
     parse_children_s p key cs (if node_name c = key then p (node_value c) else cur)"

definition parse_xmlnode_children_as_param ::
  "xml_node \<Rightarrow> string \<Rightarrow> (string \<Rightarrow> string) \<Rightarrow> string \<Rightarrow> string" where
  "parse_xmlnode_children_as_param node key p cur =
     parse_children_s p key (node_children node) cur"

text \<open>
  Modelled from the spec: \<open>parse_xmlnode_attribs\<close> (xml_utils) is missing. The
  specification (6) lists \<open>enabled: bool\<close>, default true, among the options of the
  \<open>publish\<close> node: every attribute with the name of the entry has its value parsed and
  stored in the entry's variable; without such an attribute the variable keeps its
  value. \<open>parse_bool\<close> is what a \<open>"%bool"\<close> entry makes of a text: a boolean, or an
  error for a text that is none; it is a parameter.
\<close>

fun parse_attribs_bool ::
  "(string \<Rightarrow> error + bool) \<Rightarrow> string \<Rightarrow> (string \<times> string option) list \<Rightarrow> bool \<Rightarrow> error + bool" where
  "parse_attribs_bool p key [] cur = Inr cur"
| "parse_attribs_bool p key (a # as) cur =
     (if fst a = key
      then (case p (case snd a of None \<Rightarrow> [] | Some v \<Rightarrow> v) of
              Inl e \<Rightarrow> Inl e
            | Inr b \<Rightarrow> parse_attribs_bool p key as b)
      else parse_attribs_bool p key as cur)"

definition parse_xmlnode_attribs ::
  "xml_node \<Rightarrow> string \<Rightarrow> (string \<Rightarrow> error + bool) \<Rightarrow> bool \<Rightarrow> error + bool" where
  "parse_xmlnode_attribs node key p cur = parse_attribs_bool p key (node_attributes node) cur"

text \<open>
  \<^verbatim>\<open>
  bool SensorBase::parseSensorPublish(
      const rapidxml::xml_node<char>* node,
      const std::map<std::string, std::string>& varValues)
  {
      if (node == nullptr) return false;
      {
          TParameterDefinitions params;
          params["publish_topic"] = TParamEntry("%s", &publishTopic_);
          parse_xmlnode_children_as_param(*node, params, varValues);
      }
      {
          bool publishEnabled = true;
          TParameterDefinitions auxPar;
          auxPar["enabled"] = TParamEntry("%bool", &publishEnabled);
          parse_xmlnode_attribs(*node, auxPar, varValues);
          if (!publishEnabled) publishTopic_.clear();
      }
      return true;
  }
  \<close>
  The result is the value returned or the error thrown, with the sensor as the call
  leaves it: when the attributes fail to parse, the topic read from the children is
  stored already.
\<close>

definition parseSensorPublish ::
  "((string \<rightharpoonup> string) \<Rightarrow> string \<Rightarrow> string) \<Rightarrow> ((string \<rightharpoonup> string) \<Rightarrow> string \<Rightarrow> error + bool) \<Rightarrow>
   xml_node option \<Rightarrow> (string \<rightharpoonup> string) \<Rightarrow> ('p, 'o) SensorBase \<Rightarrow>
   (error + bool) \<times> ('p, 'o) SensorBase" where
  "parseSensorPublish parse_s parse_bool node varValues this =
     (case node of
        None \<Rightarrow> (Inr False, this)
      | Some n \<Rightarrow>
          (let this1 = this\<lparr>publishTopic :=
                 parse_xmlnode_children_as_param n ''publish_topic'' (parse_s varValues)
                   (publishTopic this)\<rparr>
           in case parse_xmlnode_attribs n ''enabled'' (parse_bool varValues) True of
                Inl e \<Rightarrow> (Inl e, this1)
              | Inr publishEnabled \<Rightarrow>
                  (Inr True, if \<not> publishEnabled then this1\<lparr>publishTopic := []\<rparr> else this1)))"

section \<open>Sending out an observation\<close>

text \<open>
  The calls that the task of \<open>reportNewObservation\<close> makes outside the sensor, each of
  which may throw: the observation hook of the world (with the name of the vehicle),
  the serialisation of the observation for the message, the publication of the message
  (topic, source object, observation), the opening of the rawlog file and the writing of
  the observation to the open file.
\<close>

datatype 'o sink_call =
    DispatchOnObservation string 'o
  | ObjectToOctetVector 'o
  | PublishTopic string string 'o
  | OpenRawlog string
  | ArchiveWrite string 'o

text \<open>
  \<^verbatim>\<open>
  void SensorBase::reportNewObservation(
      const std::shared_ptr<mrpt::obs::CObservation>& obs, const TSimulContext& context)
  {
      if (!obs) return;
      auto fut = m_threadPoolSendoutObs.enqueue([this](o, ctxt) { ... }, obs, context);
  }
  \<close>
  The caller only puts a task, the observation with a copy of the context, at the end of
  the pool's queue; the future of the task is dropped, so nothing the task throws comes
  back to the caller.
\<close>

definition reportNewObservation ::
  "'o option \<Rightarrow> TSimulContext \<Rightarrow> ('p, 'o) SensorBase \<Rightarrow> ('p, 'o) SensorBase" where
  "reportNewObservation obs ctx this =
     (case obs of
        None \<Rightarrow> this
      | Some ob \<Rightarrow> this\<lparr>m_threadPoolSendoutObs := m_threadPoolSendoutObs this @ [(ob, ctx)]\<rparr>)"

text \<open>
  The block under \<open>// Publish:\<close> of the task, compiled only when both
  \<open>MVSIM_HAS_ZMQ\<close> and \<open>MVSIM_HAS_PROTOBUF\<close> are defined:
  \<^verbatim>\<open>
  if (!publishTopic_.empty())
  {
      mvsim_msgs::GenericObservation msg;
      msg.set_unixtimestamp(mrpt::Clock::toDouble(o->timestamp));
      msg.set_sourceobjectid(m_vehicle.getName());
      std::vector<uint8_t> serializedData;
      mrpt::serialization::ObjectToOctetVector(o.get(), serializedData);
      msg.set_mrptserializedobservation(serializedData.data(), serializedData.size());
      ctxt.world->commsClient().publishTopic(publishTopic_, msg);
  }
  \<close>
  \<open>ext\<close> tells, for each outside call, whether it throws. The result is the error that
  ended the block, if any, and the calls made.
\<close>

definition sendout_publish ::
  "('o sink_call \<Rightarrow> error option) \<Rightarrow> 'p Simulable \<Rightarrow> 'o \<Rightarrow> ('p, 'o) SensorBase \<Rightarrow>
   error option \<times> 'o sink_call list" where
  "sendout_publish ext m_vehicle ob this =
     (if publishTopic this = [] then (None, [])
      else
        (case ext (ObjectToOctetVector ob) of
           Some e \<Rightarrow> (Some e, [ObjectToOctetVector ob])
         | None \<Rightarrow>
             (ext (PublishTopic (publishTopic this) (getName m_vehicle) ob),
              [ObjectToOctetVector ob,
               PublishTopic (publishTopic this) (getName m_vehicle) ob])))"

text \<open>
  The block under \<open>// Save to .rawlog:\<close> of the task:
  \<^verbatim>\<open>
  if (!m_save_to_rawlog.empty())
  {
      if (!m_rawlog_io)
          m_rawlog_io = std::make_shared<mrpt::io::CFileGZOutputStream>(m_save_to_rawlog);
      auto arch = mrpt::serialization::archiveFrom(*m_rawlog_io);
      arch << *o;
  }
  \<close>
\<close>

definition sendout_rawlog ::
  "('o sink_call \<Rightarrow> error option) \<Rightarrow> 'o \<Rightarrow> ('p, 'o) SensorBase \<Rightarrow>
   error option \<times> ('p, 'o) SensorBase \<times> 'o sink_call list" where
  "sendout_rawlog ext ob this =
     (if m_save_to_rawlog this = [] then (None, this, [])
      else
        (case m_rawlog_io this of
           Some io \<Rightarrow> (ext (ArchiveWrite io ob), this, [ArchiveWrite io ob])
         | None \<Rightarrow>
             (case ext (OpenRawlog (m_save_to_rawlog this)) of
                Some e \<Rightarrow> (Some e, this, [OpenRawlog (m_save_to_rawlog this)])
              | None \<Rightarrow>
                  (ext (ArchiveWrite (m_save_to_rawlog this) ob),
                   this\<lparr>m_rawlog_io := Some (m_save_to_rawlog this)\<rparr>,
                   [OpenRawlog (m_save_to_rawlog this),
                    ArchiveWrite (m_save_to_rawlog this) ob]))))"

text \<open>
  The task itself, the lambda of \<open>reportNewObservation\<close>:
  \<^verbatim>\<open>
  [this](const std::shared_ptr<mrpt::obs::CObservation> o, TSimulContext ctxt) {
      ctxt.world->dispatchOnObservation(m_vehicle, o);
  #if defined(MVSIM_HAS_ZMQ) && defined(MVSIM_HAS_PROTOBUF)
      ... // Publish:
  #endif
      ... // Save to .rawlog:
  }
  \<close>
  It has no \<open>try\<close>: the first call that throws ends it. \<open>has_zmq_protobuf\<close> is the
  condition of the \<open>#if\<close>. The result is the error that ended the task, if any (it
  stays in the task's future), the sensor and the calls made, in order.
\<close>

definition sendout_task ::
  "bool \<Rightarrow> ('o sink_call \<Rightarrow> error option) \<Rightarrow> 'p Simulable \<Rightarrow> 'o \<Rightarrow> TSimulContext \<Rightarrow>
   ('p, 'o) SensorBase \<Rightarrow> error option \<times> ('p, 'o) SensorBase \<times> 'o sink_call list" where
  "sendout_task has_zmq_protobuf ext m_vehicle ob ctxt this =
     (case ext (DispatchOnObservation (getName m_vehicle) ob) of
        Some e \<Rightarrow> (Some e, this, [DispatchOnObservation (getName m_vehicle) ob])
      | None \<Rightarrow>
          (case (if has_zmq_protobuf then sendout_publish ext m_vehicle ob this else (None, [])) of
             (Some e, cs) \<Rightarrow> (Some e, this, DispatchOnObservation (getName m_vehicle) ob # cs)
           | (None, cs) \<Rightarrow>
               (case sendout_rawlog ext ob this of
                  (r, this', cs') \<Rightarrow>
                    (r, this', DispatchOnObservation (getName m_vehicle) ob # cs @ cs'))))"

text \<open>
  A worker thread of the pool takes the oldest task of the queue and runs it; \<open>None\<close>
  when the queue is empty.
\<close>

definition worker_run ::
  "bool \<Rightarrow> ('o sink_call \<Rightarrow> error option) \<Rightarrow> 'p Simulable \<Rightarrow> ('p, 'o) SensorBase \<Rightarrow>
   (error option \<times> ('p, 'o) SensorBase \<times> 'o sink_call list) option" where
  "worker_run has_zmq_protobuf ext m_vehicle this =
     (case m_threadPoolSendoutObs this of
        [] \<Rightarrow> None
      | task # queue \<Rightarrow>
          Some (sendout_task has_zmq_protobuf ext m_vehicle (fst task) (snd task)
                  (this\<lparr>m_threadPoolSendoutObs := queue\<rparr>)))"

text \<open>The kinds of call that the claims count.\<close>

fun is_publish_call :: "'o sink_call \<Rightarrow> bool" where
  "is_publish_call (PublishTopic t s ob) = True"
| "is_publish_call c = False"

fun is_file_call :: "'o sink_call \<Rightarrow> bool" where
  "is_file_call (OpenRawlog f) = True"
| "is_file_call (ArchiveWrite f ob) = True"
| "is_file_call c = False"

section \<open>Concrete sensors and vehicles\<close>

text \<open>
  The inputs at which the theorems below are evaluated: a sensor with a given period,
  last-sample timestamp, publish topic and rawlog path, with no file open and no task
  queued, and a vehicle named \<open>r1\<close> at a given pose. Poses and observations are
  numbers here.
\<close>

definition sensor_with :: "double \<Rightarrow> double \<Rightarrow> string \<Rightarrow> string \<Rightarrow> (nat, nat) SensorBase" where
  "sensor_with period last_timestamp topic rawlog =
     \<lparr>m_sensor_period = period, m_sensor_last_timestamp = last_timestamp,
      m_vehicle_pose_at_last_timestamp = 0, publishTopic = topic, m_save_to_rawlog = rawlog,
      m_rawlog_io = None, m_threadPoolSendoutObs = []\<rparr>"

definition vehicle_at :: "nat \<Rightarrow> nat Simulable" where
  "vehicle_at p = \<lparr>getName = ''r1'', getPose = p\<rparr>"

section \<open>Properties of doubles\<close>

text \<open>The equations that evaluate a sum of doubles on numerals.\<close>

lemmas double_eval = round_double_def pack_double_def significand_def ulp_exponent_def
  round_half_even_def bit_length.simps zero_double_def one_double_def

text \<open>On operands that are not NaN, \<open>a >= b\<close> is the negation of \<open>a < b\<close>.\<close>

lemma not_dlt_dge: "x \<noteq> NaN \<Longrightarrow> y \<noteq> NaN \<Longrightarrow> (\<not> dlt x y) = dge x y"
  by (cases x; cases y) (auto simp add: not_less)

text \<open>
  The model of the addition at work: \<open>0.1 + 0.7\<close> is \<open>0.7999999999999999\<close>, a half of
  the last place is rounded to the even neighbour, and the largest double plus half of
  its last place is an infinity.
\<close>

lemma dadd_examples:
  "dadd (Finite 3602879701896397 (- 55)) (Finite 3152519739159347 (- 52))
     = Finite 7205759403792793 (- 53)
   \<and> dadd (Finite 1 0) (Finite 1 (- 53)) = Finite 4503599627370496 (- 52)
   \<and> dadd (Finite 3 0) (Finite 3 (- 52)) = Finite 6755399441055746 (- 51)
   \<and> dadd (Finite (2 ^ 53 - 1) 971) (Finite 1 970) = PInf
   \<and> dadd (Finite 1 (- 1074)) (Finite 1 (- 1074)) = Finite 2 (- 1074)"
  by (simp add: double_eval)

section \<open>Properties of the sampling gate\<close>

lemma should_simulate_sensor_period:
  "m_sensor_period (snd (should_simulate_sensor ctx v this)) = m_sensor_period this"
  by (simp add: should_simulate_sensor_def)

lemma should_simulate_sensor_true_last:
  "fst (should_simulate_sensor ctx v this) \<Longrightarrow>
   m_sensor_last_timestamp (snd (should_simulate_sensor ctx v this)) = simul_time ctx"
  by (simp add: should_simulate_sensor_def split: if_splits)

lemma should_simulate_sensor_true_not_less:
  "fst (should_simulate_sensor ctx v this) \<Longrightarrow>
   \<not> dlt (simul_time ctx) (dadd (m_sensor_last_timestamp this) (m_sensor_period this))"
  by (simp add: should_simulate_sensor_def split: if_splits)

lemma should_simulate_sensor_false_same:
  "\<not> fst (should_simulate_sensor ctx v this) \<Longrightarrow>
   snd (should_simulate_sensor ctx v this) = this"
  by (simp add: should_simulate_sensor_def split: if_splits)

lemma gate_first_true:
  "j < length cs \<Longrightarrow> gate_results cs this ! j \<Longrightarrow> \<forall>k<j. \<not> gate_results cs this ! k \<Longrightarrow>
   \<not> dlt (simul_time (fst (cs ! j))) (dadd (m_sensor_last_timestamp this) (m_sensor_period this))"
proof (induction cs arbitrary: this j)
  case Nil
  then show ?case by simp
next
  case (Cons c cs)
  show ?case
  proof (cases j)
    case 0
    with Cons.prems(2) show ?thesis
      by (simp add: should_simulate_sensor_true_not_less)
  next
    case (Suc j')
    let ?s = "snd (should_simulate_sensor (fst c) (snd c) this)"
    from Cons.prems(3) Suc have "\<not> fst (should_simulate_sensor (fst c) (snd c) this)"
      by (auto dest: spec [of _ 0])
    then have same: "?s = this"
      by (rule should_simulate_sensor_false_same)
    have "\<forall>k<j'. \<not> gate_results cs ?s ! k"
      using Cons.prems(3) Suc by (auto dest: spec [of _ "Suc _"])
    moreover have "j' < length cs" "gate_results cs ?s ! j'"
      using Cons.prems(1,2) Suc by simp_all
    ultimately have "\<not> dlt (simul_time (fst (cs ! j')))
        (dadd (m_sensor_last_timestamp ?s) (m_sensor_period ?s))"
      using Cons.IH by blast
    with same Suc show ?thesis by simp
  qed
qed

lemma gate_consecutive_true:
  "i < j \<Longrightarrow> j < length cs \<Longrightarrow> gate_results cs this ! i \<Longrightarrow> gate_results cs this ! j \<Longrightarrow>
   \<forall>k. i < k \<and> k < j \<longrightarrow> \<not> gate_results cs this ! k \<Longrightarrow>
   \<not> dlt (simul_time (fst (cs ! j))) (dadd (simul_time (fst (cs ! i))) (m_sensor_period this))"
proof (induction cs arbitrary: this i j)
  case Nil
  then show ?case by simp
next
  case (Cons c cs)
  let ?s = "snd (should_simulate_sensor (fst c) (snd c) this)"
  from Cons.prems(1) obtain j' where j: "j = Suc j'"
    by (cases j) simp_all
  have jl: "j' < length cs" and rj: "gate_results cs ?s ! j'"
    using Cons.prems(2,4) j by simp_all
  show ?case
  proof (cases i)
    case 0
    with Cons.prems(3) have t: "fst (should_simulate_sensor (fst c) (snd c) this)"
      by simp
    have "\<forall>k<j'. \<not> gate_results cs ?s ! k"
    proof (intro allI impI)
      fix k assume "k < j'"
      with Cons.prems(5) [rule_format, of "Suc k"] 0 j show "\<not> gate_results cs ?s ! k"
        by simp
    qed
    with jl rj have "\<not> dlt (simul_time (fst (cs ! j')))
        (dadd (m_sensor_last_timestamp ?s) (m_sensor_period ?s))"
      by (rule gate_first_true)
    with t 0 j show ?thesis
      by (simp add: should_simulate_sensor_true_last should_simulate_sensor_period)
  next
    case (Suc i')
    have "\<forall>k. i' < k \<and> k < j' \<longrightarrow> \<not> gate_results cs ?s ! k"
    proof (intro allI impI)
      fix k assume "i' < k \<and> k < j'"
      with Cons.prems(5) [rule_format, of "Suc k"] Suc j show "\<not> gate_results cs ?s ! k"
        by simp
    qed
    moreover have "i' < j'" "gate_results cs ?s ! i'"
      using Cons.prems(1,3) Suc j by simp_all
    ultimately have "\<not> dlt (simul_time (fst (cs ! j')))
        (dadd (simul_time (fst (cs ! i'))) (m_sensor_period ?s))"
      using jl rj Cons.IH by blast
    with Suc j show ?thesis
      by (simp add: should_simulate_sensor_period)
  qed
qed

lemma gate_again:
  "fst (should_simulate_sensor ctx v this) \<Longrightarrow>
   fst (should_simulate_sensor ctx v' (snd (should_simulate_sensor ctx v this))) =
     (\<not> dlt (simul_time ctx) (dadd (simul_time ctx) (m_sensor_period this)))"
  by (simp add: should_simulate_sensor_def split: if_splits)

text \<open>
  C1, as stated, fails. With a NaN clock the comparison \<open>clock < last + period\<close> of the
  code is false, so the gate returns true, while \<open>clock >= last + period\<close> is false
  too. And the sum is a rounded double: with clock and last sample at \<open>1e16\<close>
  (\<open>5 ^ 16 * 2 ^ 16\<close>) and the period \<open>0.1\<close> (the double
  \<open>3602879701896397 * 2 ^ - 55\<close>) the sum is \<open>1e16\<close> again and the gate returns
  true, while the clock is below the exact sum of the two numbers.
\<close>

theorem gate_not_ge_counterexample:
  "fst (should_simulate_sensor \<lparr>simul_time = NaN\<rparr> (vehicle_at 7)
          (sensor_with (Finite 1 (- 1)) (Finite 0 0) [] []))
   \<and> \<not> dge NaN (dadd (Finite 0 0) (Finite 1 (- 1)))
   \<and> is_double (Finite 152587890625 16) \<and> is_double (Finite 3602879701896397 (- 55))
   \<and> fst (should_simulate_sensor \<lparr>simul_time = Finite 152587890625 16\<rparr> (vehicle_at 7)
          (sensor_with (Finite 3602879701896397 (- 55)) (Finite 152587890625 16) [] []))
   \<and> \<not> dval 152587890625 16 + dval 3602879701896397 (- 55) \<le> dval 152587890625 16"
  by (simp add: should_simulate_sensor_def sensor_with_def double_eval dval_def)

text \<open>
  C1, amended. For every sensor and every simulation context, the gate returns true,
  with the context's clock as the new last-sample timestamp and the owning entity's
  current pose as the pose at the sample, if and only if the comparison
  \<open>clock < last + period\<close> of the code, on doubles, is false, the sum being the rounded
  sum of doubles; when neither the clock nor that sum is NaN, this is if and only if
  \<open>clock >= last + period\<close> on doubles. When it returns false the sensor is unchanged.
\<close>

theorem should_simulate_sensor_spec:
  "fst (should_simulate_sensor ctx m_vehicle this) =
     (\<not> dlt (simul_time ctx) (dadd (m_sensor_last_timestamp this) (m_sensor_period this)))
   \<and> snd (should_simulate_sensor ctx m_vehicle this) =
     (if fst (should_simulate_sensor ctx m_vehicle this)
      then this\<lparr>m_sensor_last_timestamp := simul_time ctx,
                m_vehicle_pose_at_last_timestamp := getPose m_vehicle\<rparr>
      else this)
   \<and> (simul_time ctx \<noteq> NaN \<and>
        dadd (m_sensor_last_timestamp this) (m_sensor_period this) \<noteq> NaN \<longrightarrow>
        fst (should_simulate_sensor ctx m_vehicle this) =
          dge (simul_time ctx) (dadd (m_sensor_last_timestamp this) (m_sensor_period this)))"
  using not_dlt_dge [of "simul_time ctx"
          "dadd (m_sensor_last_timestamp this) (m_sensor_period this)"]
  by (auto simp add: should_simulate_sensor_def)

theorem should_simulate_sensor_spec_witness:
  "dge (Finite 1 (- 1)) (dadd (Finite 0 0) (Finite 1 (- 1)))
   \<and> fst (should_simulate_sensor \<lparr>simul_time = Finite 1 (- 1)\<rparr> (vehicle_at 7)
          (sensor_with (Finite 1 (- 1)) (Finite 0 0) [] []))
   \<and> snd (should_simulate_sensor \<lparr>simul_time = Finite 1 (- 1)\<rparr> (vehicle_at 7)
          (sensor_with (Finite 1 (- 1)) (Finite 0 0) [] []))
       = (sensor_with (Finite 1 (- 1)) (Finite 0 0) [] [])
           \<lparr>m_sensor_last_timestamp := Finite 1 (- 1), m_vehicle_pose_at_last_timestamp := 7\<rparr>
   \<and> \<not> dge (Finite 1 (- 2)) (dadd (Finite 0 0) (Finite 1 (- 1)))
   \<and> \<not> fst (should_simulate_sensor \<lparr>simul_time = Finite 1 (- 2)\<rparr> (vehicle_at 7)
          (sensor_with (Finite 1 (- 1)) (Finite 0 0) [] []))
   \<and> snd (should_simulate_sensor \<lparr>simul_time = Finite 1 (- 2)\<rparr> (vehicle_at 7)
          (sensor_with (Finite 1 (- 1)) (Finite 0 0) [] []))
       = sensor_with (Finite 1 (- 1)) (Finite 0 0) [] []"
proof -
  let ?s = "sensor_with (Finite 1 (- 1)) (Finite 0 0) [] []"
  have sum: "dadd (m_sensor_last_timestamp ?s) (m_sensor_period ?s) = Finite 4503599627370496 (- 53)"
    by (simp add: sensor_with_def double_eval)
  have a: "simul_time \<lparr>simul_time = Finite 1 (- 1)\<rparr> \<noteq> NaN \<and>
           dadd (m_sensor_last_timestamp ?s) (m_sensor_period ?s) \<noteq> NaN"
    by (simp add: sum)
  have b: "simul_time \<lparr>simul_time = Finite 1 (- 2)\<rparr> \<noteq> NaN \<and>
           dadd (m_sensor_last_timestamp ?s) (m_sensor_period ?s) \<noteq> NaN"
    by (simp add: sum)
  have s2: "dadd (Finite 0 0) (Finite 1 (- 1)) = Finite 4503599627370496 (- 53)"
    by (simp add: double_eval)
  from should_simulate_sensor_spec [of "\<lparr>simul_time = Finite 1 (- 1)\<rparr>" "vehicle_at 7" ?s] a
       should_simulate_sensor_spec [of "\<lparr>simul_time = Finite 1 (- 2)\<rparr>" "vehicle_at 7" ?s] b
  show ?thesis
    unfolding sum s2 by (simp add: vehicle_at_def)
qed

text \<open>
  C2, as stated, fails. With a period of \<open>0.1\<close>, which is positive, and the clock at
  \<open>1e16\<close>, the rounded sum of clock and period is the clock itself: two calls in a row
  at that clock both return true, zero time apart. The same happens with a period of
  zero, which the scene description may give (\<open>sensor_period\<close> is read with \<open>"%lf"\<close> and
  no code restricts it).
\<close>

theorem gate_rounded_period_counterexample:
  "is_double (Finite 152587890625 16) \<and> is_double (Finite 3602879701896397 (- 55))
   \<and> dlt (Finite 0 0) (Finite 3602879701896397 (- 55))
   \<and> gate_results
        [(\<lparr>simul_time = Finite 152587890625 16\<rparr>, vehicle_at 0),
         (\<lparr>simul_time = Finite 152587890625 16\<rparr>, vehicle_at 0)]
        (sensor_with (Finite 3602879701896397 (- 55)) (Finite 0 0) [] [])
      = [True, True]
   \<and> gate_results [(\<lparr>simul_time = Finite 1 0\<rparr>, vehicle_at 0), (\<lparr>simul_time = Finite 1 0\<rparr>, vehicle_at 0)]
        (sensor_with (Finite 0 0) (Finite 0 0) [] [])
      = [True, True]"
  by (simp add: should_simulate_sensor_def sensor_with_def double_eval)

text \<open>
  C2, amended. In every sequence of calls to the gate of a sensor with period \<open>p\<close>, for
  two calls that return true with no call returning true between them, at clocks \<open>t1\<close>
  and then \<open>t2\<close>, the comparison \<open>t2 < t1 + p\<close> on doubles is false, the sum being the
  rounded sum of doubles (so \<open>t2 >= t1 + p\<close> on doubles when neither is NaN); and a call
  made right after a call that returned true, with the same clock value \<open>t\<close>, returns
  false exactly when \<open>t < t + p\<close> holds on doubles.
\<close>

theorem gate_period_separation:
  "(\<forall>i j. i < j \<and> j < length cs \<and> gate_results cs this ! i \<and> gate_results cs this ! j \<and>
          (\<forall>k. i < k \<and> k < j \<longrightarrow> \<not> gate_results cs this ! k) \<longrightarrow>
          \<not> dlt (simul_time (fst (cs ! j)))
               (dadd (simul_time (fst (cs ! i))) (m_sensor_period this)) \<and>
          (simul_time (fst (cs ! j)) \<noteq> NaN \<and>
           dadd (simul_time (fst (cs ! i))) (m_sensor_period this) \<noteq> NaN \<longrightarrow>
           dge (simul_time (fst (cs ! j)))
               (dadd (simul_time (fst (cs ! i))) (m_sensor_period this))))
   \<and> (fst (should_simulate_sensor ctx v this) \<longrightarrow>
        fst (should_simulate_sensor ctx v' (snd (should_simulate_sensor ctx v this))) =
          (\<not> dlt (simul_time ctx) (dadd (simul_time ctx) (m_sensor_period this))))"
proof (intro conjI allI impI)
  fix i j
  assume a: "i < j \<and> j < length cs \<and> gate_results cs this ! i \<and> gate_results cs this ! j \<and>
          (\<forall>k. i < k \<and> k < j \<longrightarrow> \<not> gate_results cs this ! k)"
  then show n: "\<not> dlt (simul_time (fst (cs ! j)))
               (dadd (simul_time (fst (cs ! i))) (m_sensor_period this))"
    using gate_consecutive_true [of i j cs this] by blast
  assume "simul_time (fst (cs ! j)) \<noteq> NaN \<and>
          dadd (simul_time (fst (cs ! i))) (m_sensor_period this) \<noteq> NaN"
  with n show "dge (simul_time (fst (cs ! j)))
               (dadd (simul_time (fst (cs ! i))) (m_sensor_period this))"
    using not_dlt_dge [of "simul_time (fst (cs ! j))"
            "dadd (simul_time (fst (cs ! i))) (m_sensor_period this)"]
    by blast
next
  assume "fst (should_simulate_sensor ctx v this)"
  then show "fst (should_simulate_sensor ctx v' (snd (should_simulate_sensor ctx v this))) =
          (\<not> dlt (simul_time ctx) (dadd (simul_time ctx) (m_sensor_period this)))"
    by (rule gate_again)
qed

theorem gate_period_separation_witness:
  "gate_results
     [(\<lparr>simul_time = Finite 1 (- 1)\<rparr>, vehicle_at 1), (\<lparr>simul_time = Finite 3 (- 2)\<rparr>, vehicle_at 2),
      (\<lparr>simul_time = Finite 1 0\<rparr>, vehicle_at 3)]
     (sensor_with (Finite 1 (- 1)) (Finite 0 0) [] [])
   = [True, False, True]
   \<and> dge (Finite 1 0) (dadd (Finite 1 (- 1)) (Finite 1 (- 1)))
   \<and> dlt (Finite 1 (- 1)) (dadd (Finite 1 (- 1)) (Finite 1 (- 1)))
   \<and> \<not> fst (should_simulate_sensor \<lparr>simul_time = Finite 1 (- 1)\<rparr> (vehicle_at 2)
            (snd (should_simulate_sensor \<lparr>simul_time = Finite 1 (- 1)\<rparr> (vehicle_at 1)
                    (sensor_with (Finite 1 (- 1)) (Finite 0 0) [] []))))"
proof -
  let ?cs = "[(\<lparr>simul_time = Finite 1 (- 1)\<rparr>, vehicle_at 1),
              (\<lparr>simul_time = Finite 3 (- 2)\<rparr>, vehicle_at 2),
              (\<lparr>simul_time = Finite 1 0\<rparr>, vehicle_at 3)]"
  let ?s = "sensor_with (Finite 1 (- 1)) (Finite 0 0) [] []"
  have r: "gate_results ?cs ?s = [True, False, True]"
    by (simp add: should_simulate_sensor_def sensor_with_def double_eval)
  have between: "\<forall>k. 0 < k \<and> k < 2 \<longrightarrow> \<not> gate_results ?cs ?s ! k"
  proof (intro allI impI)
    fix k :: nat
    assume "0 < k \<and> k < 2"
    then have "k = 1" by arith
    then show "\<not> gate_results ?cs ?s ! k" unfolding r by simp
  qed
  have pair: "(0::nat) < 2 \<and> 2 < length ?cs \<and> gate_results ?cs ?s ! 0 \<and> gate_results ?cs ?s ! 2 \<and>
              (\<forall>k. 0 < k \<and> k < 2 \<longrightarrow> \<not> gate_results ?cs ?s ! k)"
    using between unfolding r by simp
  have numbers: "simul_time (fst (?cs ! 2)) \<noteq> NaN \<and>
                 dadd (simul_time (fst (?cs ! 0))) (m_sensor_period ?s) \<noteq> NaN"
    by (simp add: sensor_with_def double_eval)
  have first: "fst (should_simulate_sensor \<lparr>simul_time = Finite 1 (- 1)\<rparr> (vehicle_at 1) ?s)"
    by (simp add: should_simulate_sensor_def sensor_with_def double_eval)
  note sep = gate_period_separation
    [of ?cs ?s "\<lparr>simul_time = Finite 1 (- 1)\<rparr>" "vehicle_at 1" "vehicle_at 2"]
  from sep pair numbers
  have "dge (simul_time (fst (?cs ! 2))) (dadd (simul_time (fst (?cs ! 0))) (m_sensor_period ?s))"
    by blast
  then have ge: "dge (Finite 1 0) (dadd (Finite 1 (- 1)) (Finite 1 (- 1)))"
    by (simp add: sensor_with_def)
  from sep first
  have "fst (should_simulate_sensor \<lparr>simul_time = Finite 1 (- 1)\<rparr> (vehicle_at 2)
              (snd (should_simulate_sensor \<lparr>simul_time = Finite 1 (- 1)\<rparr> (vehicle_at 1) ?s))) =
        (\<not> dlt (simul_time \<lparr>simul_time = Finite 1 (- 1)\<rparr>)
              (dadd (simul_time \<lparr>simul_time = Finite 1 (- 1)\<rparr>) (m_sensor_period ?s)))"
    by blast
  moreover have lt: "dlt (Finite 1 (- 1)) (dadd (Finite 1 (- 1)) (Finite 1 (- 1)))"
    by (simp add: double_eval)
  ultimately have "\<not> fst (should_simulate_sensor \<lparr>simul_time = Finite 1 (- 1)\<rparr> (vehicle_at 2)
              (snd (should_simulate_sensor \<lparr>simul_time = Finite 1 (- 1)\<rparr> (vehicle_at 1) ?s)))"
    by (simp add: sensor_with_def)
  with r ge lt show ?thesis by blast
qed

section \<open>Properties of the stepping engine\<close>








text \<open>The same two calls evaluated: five steps of a tenth, a twentieth left pending.\<close>

lemma run_simulation_example:
  "run_simulation_calls [1 / 4, 3 / 10] \<lparr>m_simul_time = 0, m_simul_timestep = 1 / 10, pending_time = 0\<rparr>
   = Some \<lparr>m_simul_time = 1 / 2, m_simul_timestep = 1 / 10, pending_time = 1 / 20\<rparr>"
  by (simp add: run_simulation_def run_pending_steps.simps internal_one_timestep_def)

section \<open>Properties of the registration\<close>

lemma register_all_sensors_done: "register_done (register_all_sensors g)"
  by (simp add: register_all_sensors_def)

lemma register_all_sensors_again:
  "register_all_sensors (register_all_sensors g) = register_all_sensors g"
  using register_all_sensors_done [of g] by (simp add: register_all_sensors_def [of "register_all_sensors g"])

text \<open>
  C4. Calling \<open>register_all_sensors\<close> any number of times, once or more, leaves the
  registration state (the \<open>done\<close> flag and the table of sensor types) exactly as one
  call leaves it: a repeated call adds no entry, alters no entry and raises no error.
\<close>

theorem register_all_sensors_idempotent:
  "(register_all_sensors ^^ Suc n) g = register_all_sensors g"
proof (induction n)
  case 0
  show ?case by simp
next
  case (Suc n)
  have "(register_all_sensors ^^ Suc (Suc n)) g = register_all_sensors ((register_all_sensors ^^ Suc n) g)"
    by simp
  also have "\<dots> = register_all_sensors (register_all_sensors g)"
    by (simp only: Suc.IH)
  also have "\<dots> = register_all_sensors g"
    by (rule register_all_sensors_again)
  finally show ?case .
qed

theorem register_all_sensors_idempotent_witness:
  "(register_all_sensors ^^ Suc 2) \<lparr>register_done = False, classFactory_sensors = Map.empty\<rparr>
   = \<lparr>register_done = True,
      classFactory_sensors =
        [''laser'' \<mapsto> LaserScanner, ''rgbd_camera'' \<mapsto> DepthCameraSensor, ''camera'' \<mapsto> CameraSensor]\<rparr>"
  using register_all_sensors_idempotent [of 2 "\<lparr>register_done = False, classFactory_sensors = Map.empty\<rparr>"]
  by (simp add: register_all_sensors_def REGISTER_SENSOR_def)

section \<open>Properties of the sensor factory\<close>

text \<open>
  C5. For every \<open>sensor\<close> node whose \<open>class\<close> attribute is absent, or is there with
  no value, \<open>SensorBase::factory\<close> throws a \<open>runtime_error\<close> whose message names the
  missing mandatory attribute \<open>class\<close> and the node \<open>sensor\<close>; no sensor is built.
\<close>

theorem factory_missing_class:
  assumes "node_name r = ''sensor''"
    and "first_attribute ''class'' r = None \<or> (\<exists>a. first_attribute ''class'' r = Some (a, None))"
  shows "factory ctor parseVisual parent (Some r) g =
     (Inl (runtime_error
        ''[VehicleBase::factory] Missing mandatory attribute 'class' in node <sensor>''),
      register_all_sensors g)"
  using assms by (auto simp add: factory_def Let_def)

theorem factory_missing_class_witness:
  "factory (\<lambda>c v n. Inr (0::nat)) (\<lambda>n s. Inr s) (vehicle_at 0)
     (Some (xml_node ''sensor'' [] [(''name'', Some ''laser1'')] []))
     \<lparr>register_done = True, classFactory_sensors = Map.empty\<rparr> =
     (Inl (runtime_error
        ''[VehicleBase::factory] Missing mandatory attribute 'class' in node <sensor>''),
      \<lparr>register_done = True, classFactory_sensors = Map.empty\<rparr>)
   \<and> factory (\<lambda>c v n. Inr (0::nat)) (\<lambda>n s. Inr s) (vehicle_at 0)
     (Some (xml_node ''sensor'' [] [(''class'', None)] []))
     \<lparr>register_done = True, classFactory_sensors = Map.empty\<rparr> =
     (Inl (runtime_error
        ''[VehicleBase::factory] Missing mandatory attribute 'class' in node <sensor>''),
      \<lparr>register_done = True, classFactory_sensors = Map.empty\<rparr>)"
  using factory_missing_class [of "xml_node ''sensor'' [] [(''name'', Some ''laser1'')] []"
          "\<lambda>c v n. Inr (0::nat)" "\<lambda>n s. Inr s" "vehicle_at 0"
          "\<lparr>register_done = True, classFactory_sensors = Map.empty\<rparr>"]
        factory_missing_class [of "xml_node ''sensor'' [] [(''class'', None)] []"
          "\<lambda>c v n. Inr (0::nat)" "\<lambda>n s. Inr s" "vehicle_at 0"
          "\<lparr>register_done = True, classFactory_sensors = Map.empty\<rparr>"]
  by (simp add: first_attribute_def register_all_sensors_def)

text \<open>
  C6. For every \<open>sensor\<close> node whose \<open>class\<close> attribute names a type that is not in the
  registry of sensor types, \<open>SensorBase::factory\<close> fails with the error of the look-up,
  which names the unresolved type, and builds no sensor.
\<close>

theorem factory_unknown_type:
  assumes "node_name r = ''sensor''" and "first_attribute ''class'' r = Some (a, Some sName)"
    and "classFactory_sensors (register_all_sensors g) sName = None"
  shows "factory ctor parseVisual parent (Some r) g =
     (Inl (UnknownTypeError sName), register_all_sensors g)"
  using assms by (simp add: factory_def Let_def create_def)

theorem factory_unknown_type_witness:
  "factory (\<lambda>c v n. Inr (0::nat)) (\<lambda>n s. Inr s) (vehicle_at 0)
     (Some (xml_node ''sensor'' [] [(''class'', Some ''sonar'')] []))
     \<lparr>register_done = False, classFactory_sensors = Map.empty\<rparr> =
     (Inl (UnknownTypeError ''sonar''),
      \<lparr>register_done = True,
       classFactory_sensors =
         [''laser'' \<mapsto> LaserScanner, ''rgbd_camera'' \<mapsto> DepthCameraSensor,
          ''camera'' \<mapsto> CameraSensor]\<rparr>)"
  using factory_unknown_type
          [of "xml_node ''sensor'' [] [(''class'', Some ''sonar'')] []" "''class''" "''sonar''"
              "\<lparr>register_done = False, classFactory_sensors = Map.empty\<rparr>"
              "\<lambda>c v n. Inr (0::nat)" "\<lambda>n s. Inr s" "vehicle_at 0"]
  by (simp add: first_attribute_def register_all_sensors_def REGISTER_SENSOR_def)

section \<open>Properties of the publish options\<close>

lemma parse_attribs_bool_absent:
  "key \<notin> fst ` set as \<Longrightarrow> parse_attribs_bool p key as cur = Inr cur"
  by (induction as arbitrary: cur) auto

lemma parse_children_s_absent:
  "key \<notin> node_name ` set cs \<Longrightarrow> parse_children_s p key cs cur = cur"
  by (induction cs arbitrary: cur) auto

text \<open>
  C7. \<open>parseSensorPublish\<close> returns false and leaves the sensor alone for a null node.
  For a node, it reads the optional \<open>publish_topic\<close> child (without one the topic keeps
  its value) and the optional \<open>enabled\<close> attribute: when \<open>enabled\<close> is absent, or parses
  to true, the topic read is stored and the result is true; when \<open>enabled\<close> parses to
  false the stored topic is empty, whatever \<open>publish_topic\<close> was given.
\<close>

theorem parseSensorPublish_spec:
  "parseSensorPublish parse_s parse_bool None varValues this = (Inr False, this)
   \<and> (''enabled'' \<notin> fst ` set (node_attributes n) \<longrightarrow>
        parseSensorPublish parse_s parse_bool (Some n) varValues this =
          (Inr True, this\<lparr>publishTopic :=
             parse_xmlnode_children_as_param n ''publish_topic'' (parse_s varValues)
               (publishTopic this)\<rparr>))
   \<and> (parse_xmlnode_attribs n ''enabled'' (parse_bool varValues) True = Inr True \<longrightarrow>
        parseSensorPublish parse_s parse_bool (Some n) varValues this =
          (Inr True, this\<lparr>publishTopic :=
             parse_xmlnode_children_as_param n ''publish_topic'' (parse_s varValues)
               (publishTopic this)\<rparr>))
   \<and> (parse_xmlnode_attribs n ''enabled'' (parse_bool varValues) True = Inr False \<longrightarrow>
        parseSensorPublish parse_s parse_bool (Some n) varValues this =
          (Inr True, this\<lparr>publishTopic := []\<rparr>))
   \<and> (''publish_topic'' \<notin> node_name ` set (node_children n) \<longrightarrow>
        parse_xmlnode_children_as_param n ''publish_topic'' (parse_s varValues)
          (publishTopic this) = publishTopic this)"
  by (simp add: parseSensorPublish_def Let_def parse_xmlnode_attribs_def
        parse_attribs_bool_absent parse_xmlnode_children_as_param_def parse_children_s_absent)

theorem parseSensorPublish_spec_witness:
  "parseSensorPublish (\<lambda>vars s. s)
     (\<lambda>vars s. if s = ''true'' then Inr True else if s = ''false'' then Inr False
                else Inl (runtime_error ''not a bool''))
     (Some (xml_node ''publish'' [] [] [xml_node ''publish_topic'' ''/scan'' [] []]))
     Map.empty (sensor_with 1 0 ''/old'' [])
   = (Inr True, sensor_with 1 0 ''/scan'' [])
   \<and> parseSensorPublish (\<lambda>vars s. s)
     (\<lambda>vars s. if s = ''true'' then Inr True else if s = ''false'' then Inr False
                else Inl (runtime_error ''not a bool''))
     (Some (xml_node ''publish'' [] [(''enabled'', Some ''false'')]
              [xml_node ''publish_topic'' ''/scan'' [] []]))
     Map.empty (sensor_with 1 0 ''/old'' [])
   = (Inr True, sensor_with 1 0 [] [])
   \<and> parseSensorPublish (\<lambda>vars s. s)
     (\<lambda>vars s. if s = ''true'' then Inr True else if s = ''false'' then Inr False
                else Inl (runtime_error ''not a bool''))
     (Some (xml_node ''publish'' [] [(''enabled'', Some ''true'')] []))
     Map.empty (sensor_with 1 0 ''/old'' [])
   = (Inr True, sensor_with 1 0 ''/old'' [])"
  using parseSensorPublish_spec
          [where n = "xml_node ''publish'' [] [] [xml_node ''publish_topic'' ''/scan'' [] []]"
             and parse_s = "\<lambda>vars s. s"
             and parse_bool = "\<lambda>vars s. if s = ''true'' then Inr True
                  else if s = ''false'' then Inr False else Inl (runtime_error ''not a bool'')"
             and varValues = Map.empty and this = "sensor_with 1 0 ''/old'' []"]
        parseSensorPublish_spec
          [where n = "xml_node ''publish'' [] [(''enabled'', Some ''false'')]
                        [xml_node ''publish_topic'' ''/scan'' [] []]"
             and parse_s = "\<lambda>vars s. s"
             and parse_bool = "\<lambda>vars s. if s = ''true'' then Inr True
                  else if s = ''false'' then Inr False else Inl (runtime_error ''not a bool'')"
             and varValues = Map.empty and this = "sensor_with 1 0 ''/old'' []"]
        parseSensorPublish_spec
          [where n = "xml_node ''publish'' [] [(''enabled'', Some ''true'')] []"
             and parse_s = "\<lambda>vars s. s"
             and parse_bool = "\<lambda>vars s. if s = ''true'' then Inr True
                  else if s = ''false'' then Inr False else Inl (runtime_error ''not a bool'')"
             and varValues = Map.empty and this = "sensor_with 1 0 ''/old'' []"]
  by (simp add: parse_xmlnode_attribs_def parse_xmlnode_children_as_param_def sensor_with_def)

section \<open>Properties of the dispatch of observations\<close>

lemma sendout_publish_no_file_call: "filter is_file_call (snd (sendout_publish ext v ob this)) = []"
  by (simp add: sendout_publish_def split: option.splits)

lemma sendout_publish_failed:
  "publishTopic this \<noteq> [] \<Longrightarrow>
   ext (ObjectToOctetVector ob) \<noteq> None \<or> ext (PublishTopic (publishTopic this) (getName v) ob) \<noteq> None \<Longrightarrow>
   fst (sendout_publish ext v ob this) \<noteq> None"
  by (auto simp add: sendout_publish_def split: option.splits)

lemma sendout_task_hook_first:
  "\<exists>cs. snd (snd (sendout_task hz ext v ob ctxt this)) = DispatchOnObservation (getName v) ob # cs"
  by (simp add: sendout_task_def split: option.splits prod.splits)

lemma sendout_task_publish_failed:
  assumes "ext (DispatchOnObservation (getName v) ob) = None" and "hz"
    and "fst (sendout_publish ext v ob this) \<noteq> None"
  shows "sendout_task hz ext v ob ctxt this =
     (fst (sendout_publish ext v ob this), this,
      DispatchOnObservation (getName v) ob # snd (sendout_publish ext v ob this))"
  using assms by (cases "sendout_publish ext v ob this") (auto simp add: sendout_task_def)

lemma sendout_task_published:
  assumes "ext (DispatchOnObservation (getName v) ob) = None" and "hz"
    and "publishTopic this \<noteq> []" and "ext (ObjectToOctetVector ob) = None"
    and "ext (PublishTopic (publishTopic this) (getName v) ob) = None"
  shows "filter is_publish_call (snd (snd (sendout_task hz ext v ob ctxt this))) =
     [PublishTopic (publishTopic this) (getName v) ob]"
  using assms
  by (simp add: sendout_task_def sendout_publish_def sendout_rawlog_def split: option.splits)

text \<open>
  C8, as stated, fails: the task has no handler around its sinks, so a failure of the
  publication ends it before the block that writes the rawlog. With a topic and a
  rawlog path configured and a publication that throws, the calls made are the hook,
  the serialisation and the publication; the file is neither opened nor written.
\<close>

theorem publish_failure_skips_rawlog_counterexample:
  "worker_run True
     (\<lambda>c. if is_publish_call c then Some (runtime_error ''publish failed'') else None)
     (vehicle_at 0)
     (reportNewObservation (Some 5) \<lparr>simul_time = 1\<rparr> (sensor_with 1 0 ''/scan'' ''log.rawlog''))
   = Some (Some (runtime_error ''publish failed''), sensor_with 1 0 ''/scan'' ''log.rawlog'',
           [DispatchOnObservation ''r1'' 5, ObjectToOctetVector 5, PublishTopic ''/scan'' ''r1'' 5])"
  by (simp add: worker_run_def reportNewObservation_def sendout_task_def sendout_publish_def
        sensor_with_def vehicle_at_def)

text \<open>
  C8, amended. For every observation dispatched by \<open>reportNewObservation\<close>: the call in
  the stepping thread only puts the task on the queue, whatever the sinks will do, so
  no failure of a sink comes back into it; the observation hook of the world (a) is the
  first call of the task, so no failure in the publish step (b) or in the log step (c)
  prevents it; a publication that goes through is made once whether or not the log
  step (c) fails after it; and a failure in the publish step (b) ends the task with
  that error, the sensor as it was, and the log step (c) not run (no file call).
\<close>

theorem sendout_task_failures:
  "reportNewObservation (Some ob) ctx this =
     this\<lparr>m_threadPoolSendoutObs := m_threadPoolSendoutObs this @ [(ob, ctx)]\<rparr>
   \<and> (\<exists>cs. snd (snd (sendout_task hz ext v ob ctxt this)) =
              DispatchOnObservation (getName v) ob # cs)
   \<and> (ext (DispatchOnObservation (getName v) ob) = None \<and> hz \<and> publishTopic this \<noteq> [] \<and>
        ext (ObjectToOctetVector ob) = None \<and>
        ext (PublishTopic (publishTopic this) (getName v) ob) = None \<longrightarrow>
        filter is_publish_call (snd (snd (sendout_task hz ext v ob ctxt this))) =
          [PublishTopic (publishTopic this) (getName v) ob])
   \<and> (ext (DispatchOnObservation (getName v) ob) = None \<and> hz \<and> publishTopic this \<noteq> [] \<and>
        (ext (ObjectToOctetVector ob) \<noteq> None \<or>
         ext (PublishTopic (publishTopic this) (getName v) ob) \<noteq> None) \<longrightarrow>
        fst (sendout_task hz ext v ob ctxt this) \<noteq> None \<and>
        fst (snd (sendout_task hz ext v ob ctxt this)) = this \<and>
        filter is_file_call (snd (snd (sendout_task hz ext v ob ctxt this))) = [])"
proof (intro conjI impI)
  show "reportNewObservation (Some ob) ctx this =
     this\<lparr>m_threadPoolSendoutObs := m_threadPoolSendoutObs this @ [(ob, ctx)]\<rparr>"
    by (simp add: reportNewObservation_def)
  show "\<exists>cs. snd (snd (sendout_task hz ext v ob ctxt this)) =
              DispatchOnObservation (getName v) ob # cs"
    by (rule sendout_task_hook_first)
next
  assume "ext (DispatchOnObservation (getName v) ob) = None \<and> hz \<and> publishTopic this \<noteq> [] \<and>
        ext (ObjectToOctetVector ob) = None \<and>
        ext (PublishTopic (publishTopic this) (getName v) ob) = None"
  then show "filter is_publish_call (snd (snd (sendout_task hz ext v ob ctxt this))) =
          [PublishTopic (publishTopic this) (getName v) ob]"
    by (simp add: sendout_task_published)
next
  assume a: "ext (DispatchOnObservation (getName v) ob) = None \<and> hz \<and> publishTopic this \<noteq> [] \<and>
        (ext (ObjectToOctetVector ob) \<noteq> None \<or>
         ext (PublishTopic (publishTopic this) (getName v) ob) \<noteq> None)"
  then have f: "fst (sendout_publish ext v ob this) \<noteq> None"
    by (simp add: sendout_publish_failed)
  with a have t: "sendout_task hz ext v ob ctxt this =
     (fst (sendout_publish ext v ob this), this,
      DispatchOnObservation (getName v) ob # snd (sendout_publish ext v ob this))"
    by (simp add: sendout_task_publish_failed)
  show "fst (sendout_task hz ext v ob ctxt this) \<noteq> None"
    using f by (simp add: t)
  show "fst (snd (sendout_task hz ext v ob ctxt this)) = this"
    by (simp add: t)
  show "filter is_file_call (snd (snd (sendout_task hz ext v ob ctxt this))) = []"
    by (simp add: t sendout_publish_no_file_call)
qed

theorem sendout_task_failures_witness:
  "filter is_publish_call
     (snd (snd (sendout_task True
        (\<lambda>c. if is_file_call c then Some (runtime_error ''disk full'') else None)
        (vehicle_at 0) (5::nat) \<lparr>simul_time = 1\<rparr> (sensor_with 1 0 ''/scan'' ''log.rawlog''))))
     = [PublishTopic ''/scan'' ''r1'' 5]
   \<and> fst (sendout_task True
        (\<lambda>c. if is_publish_call c then Some (runtime_error ''publish failed'') else None)
        (vehicle_at 0) (5::nat) \<lparr>simul_time = 1\<rparr> (sensor_with 1 0 ''/scan'' ''log.rawlog''))
     \<noteq> None
   \<and> filter is_file_call
     (snd (snd (sendout_task True
        (\<lambda>c. if is_publish_call c then Some (runtime_error ''publish failed'') else None)
        (vehicle_at 0) (5::nat) \<lparr>simul_time = 1\<rparr> (sensor_with 1 0 ''/scan'' ''log.rawlog''))))
     = []"
  using sendout_task_failures
          [of 5 "\<lparr>simul_time = 1\<rparr>" "sensor_with 1 0 ''/scan'' ''log.rawlog''" True
              "\<lambda>c. if is_file_call c then Some (runtime_error ''disk full'') else None"
              "vehicle_at 0" "\<lparr>simul_time = 1\<rparr>"]
        sendout_task_failures
          [of 5 "\<lparr>simul_time = 1\<rparr>" "sensor_with 1 0 ''/scan'' ''log.rawlog''" True
              "\<lambda>c. if is_publish_call c then Some (runtime_error ''publish failed'') else None"
              "vehicle_at 0" "\<lparr>simul_time = 1\<rparr>"]
  by (simp add: sensor_with_def vehicle_at_def)

text \<open>
  C9, as stated, fails in a build without \<open>MVSIM_HAS_ZMQ\<close> or \<open>MVSIM_HAS_PROTOBUF\<close>:
  the publish block is not compiled, and a sensor with a topic makes no publish call.
\<close>

theorem publish_without_zmq_counterexample:
  "worker_run False (\<lambda>c. None) (vehicle_at 0)
     (reportNewObservation (Some 5) \<lparr>simul_time = 1\<rparr> (sensor_with 1 0 ''/scan'' []))
   = Some (None, sensor_with 1 0 ''/scan'' [], [DispatchOnObservation ''r1'' 5])"
  by (simp add: worker_run_def reportNewObservation_def sendout_task_def sendout_rawlog_def
        sensor_with_def vehicle_at_def)

text \<open>
  C9, amended. In a build with both \<open>MVSIM_HAS_ZMQ\<close> and \<open>MVSIM_HAS_PROTOBUF\<close>, for a
  sensor with a non-empty publish topic, an empty rawlog path and no task waiting, one
  observation handed to \<open>reportNewObservation\<close>, whose hook call and serialisation do
  not fail, makes the worker perform exactly one publish call, to that topic, and no
  file call.
\<close>

theorem report_publishes_once:
  assumes "hz" and "publishTopic this \<noteq> []" and "m_save_to_rawlog this = []"
    and "m_threadPoolSendoutObs this = []"
    and "ext (DispatchOnObservation (getName v) ob) = None"
    and "ext (ObjectToOctetVector ob) = None"
  shows "\<exists>r calls. worker_run hz ext v (reportNewObservation (Some ob) ctx this) =
             Some (r, this, calls) \<and>
           filter is_publish_call calls = [PublishTopic (publishTopic this) (getName v) ob] \<and>
           filter is_file_call calls = []"
  using assms
  by (cases "ext (PublishTopic (publishTopic this) (getName v) ob)")
     (simp_all add: worker_run_def reportNewObservation_def sendout_task_def sendout_publish_def
        sendout_rawlog_def)

theorem report_publishes_once_witness:
  "\<exists>r calls. worker_run True (\<lambda>c. None) (vehicle_at 0)
        (reportNewObservation (Some 5) \<lparr>simul_time = 1\<rparr> (sensor_with 1 0 ''/scan'' [])) =
        Some (r, sensor_with 1 0 ''/scan'' [], calls) \<and>
      filter is_publish_call calls = [PublishTopic ''/scan'' ''r1'' 5] \<and>
      filter is_file_call calls = []"
  using report_publishes_once
          [of True "sensor_with 1 0 ''/scan'' []" "\<lambda>c. None" "vehicle_at 0" 5 "\<lparr>simul_time = 1\<rparr>"]
  by (simp add: sensor_with_def vehicle_at_def)

text \<open>The calls of that run, in order.\<close>

lemma report_publishes_once_example:
  "worker_run True (\<lambda>c. None) (vehicle_at 0)
     (reportNewObservation (Some 5) \<lparr>simul_time = 1\<rparr> (sensor_with 1 0 ''/scan'' []))
   = Some (None, sensor_with 1 0 ''/scan'' [],
           [DispatchOnObservation ''r1'' 5, ObjectToOctetVector 5, PublishTopic ''/scan'' ''r1'' 5])"
  by (simp add: worker_run_def reportNewObservation_def sendout_task_def sendout_publish_def
        sendout_rawlog_def sensor_with_def vehicle_at_def)

text \<open>
  C10. \<open>reportNewObservation\<close> with a null observation returns at once: the sensor,
  with its queue of tasks, is as before, so no task is queued and no sink is called.
\<close>

theorem reportNewObservation_null:
  "reportNewObservation None ctx this = this"
  by (simp add: reportNewObservation_def)

end
